theory Spec2Isabelle
  imports Main "HOL-Library.Word"
begin

section \<open>discoverOrganizations.py: the script and its surroundings\<close>

text \<open>
  The script is a straight line: read two environment variables, build the headers, call
  \<^verbatim>\<open>requests.get\<close>, decode the body, open \<^verbatim>\<open>organizations.txt\<close> for writing, write one
  line per element, close the file. Nothing is caught, so the first exception ends the run.
  The model threads an explicit world through these steps and returns what the run left
  behind, together with the step and the exception that ended it, if any.
\<close>

subsection \<open>Python values\<close>

text \<open>
  What \<^verbatim>\<open>response.json()\<close> can return. A JSON object decodes to a \<^verbatim>\<open>dict\<close> with string
  keys, kept here as an association list in insertion order (iteration order matters);
  a float is carried as its 64-bit pattern, the script never computes with one. A \<open>char\<close>
  stands for one character of a Python \<^verbatim>\<open>str\<close>.
\<close>

datatype pyval =
    PyNone
  | PyBool bool
  | PyInt int
  | PyFloat "64 word"
  | PyStr string
  | PyList "pyval list"
  | PyDict "(string \<times> pyval) list"

datatype py_error = TypeError | KeyError | JSONDecodeError | RequestException | OSError

text \<open>The statement of the script at which an exception is raised.\<close>

datatype step =
    BuildHeaders    \<comment> \<open>line 23, \<^verbatim>\<open>'token ' + GHES_TOKEN\<close>\<close>
  | FormURL         \<comment> \<open>line 25, \<^verbatim>\<open>'https://' + GHES_HOST + ...\<close>\<close>
  | Request         \<comment> \<open>line 25, \<^verbatim>\<open>requests.get\<close>\<close>
  | Decode          \<comment> \<open>line 28, \<^verbatim>\<open>response.json()\<close>\<close>
  | OpenFile        \<comment> \<open>line 31, \<^verbatim>\<open>open(OUTPUT_FILE,"w")\<close>\<close>
  | Iterate         \<comment> \<open>line 34, \<^verbatim>\<open>for org in listOrgs\<close>\<close>
  | FieldAccess     \<comment> \<open>line 35, \<^verbatim>\<open>org['login']\<close>\<close>
  | WriteLogin      \<comment> \<open>line 35, \<^verbatim>\<open>f.write(...)\<close>\<close>
  | WriteNewline    \<comment> \<open>line 36, \<^verbatim>\<open>f.write("\n")\<close>\<close>
  | CloseFile       \<comment> \<open>line 39, \<^verbatim>\<open>f.close()\<close>\<close>

text \<open>
  \<^verbatim>\<open>'...' + x\<close> where \<open>x\<close> came from \<^verbatim>\<open>os.environ.get\<close>: a \<^verbatim>\<open>str\<close>, or \<^verbatim>\<open>None\<close> when the
  variable is not set. Adding \<^verbatim>\<open>None\<close> to a \<^verbatim>\<open>str\<close> raises \<^verbatim>\<open>TypeError\<close>; adding the
  empty string does not.
\<close>

definition str_add :: "string \<Rightarrow> string option \<Rightarrow> py_error + string" where
  "str_add s x = (case x of None \<Rightarrow> Inl TypeError | Some t \<Rightarrow> Inr (s @ t))"

text \<open>
  \<^verbatim>\<open>iter(v)\<close>, as the \<^verbatim>\<open>for\<close> statement calls it: a list gives its elements, a dict its
  keys, a string its characters as one-character strings; nothing else is iterable.
\<close>

definition py_iter :: "pyval \<Rightarrow> py_error + pyval list" where
  "py_iter v =
     (case v of
        PyList xs \<Rightarrow> Inr xs
      | PyDict kvs \<Rightarrow> Inr (map (\<lambda>kv. PyStr (fst kv)) kvs)
      | PyStr s \<Rightarrow> Inr (map (\<lambda>c. PyStr [c]) s)
      | _ \<Rightarrow> Inl TypeError)"

text \<open>
  \<^verbatim>\<open>v[k]\<close> with a string key \<open>k\<close>: a dict looks the key up and raises \<^verbatim>\<open>KeyError\<close> when
  it is missing; lists and strings want integer indices, the other values are not
  subscriptable at all (\<^verbatim>\<open>TypeError\<close> in both cases).
\<close>

definition subscript :: "pyval \<Rightarrow> string \<Rightarrow> py_error + pyval" where
  "subscript v k =
     (case v of
        PyDict kvs \<Rightarrow> (case map_of kvs k of None \<Rightarrow> Inl KeyError | Some x \<Rightarrow> Inr x)
      | _ \<Rightarrow> Inl TypeError)"

subsection \<open>The world around the script\<close>

record request =
  url :: string
  headers :: "(string \<times> string) list"

text \<open>
  The object \<^verbatim>\<open>requests.get\<close> returns: its status code, and what its method \<^verbatim>\<open>json()\<close>
  gives (\<open>None\<close> when the body is not JSON and the method raises).
\<close>

record response =
  status_code :: nat
  json :: "pyval option"

text \<open>
  \<open>requests_get\<close> is the network as the library shows it: \<open>None\<close> when the call raises
  (invalid URL, DNS, TLS, connection). \<open>open_ok\<close> says whether the file system lets a path
  be opened for writing. \<open>write_ok stored chunk\<close> says whether the device takes \<open>chunk\<close>
  after the text \<open>stored\<close> that the file already holds (a full device takes nothing).
  \<open>buffer_size\<close> is how much text the handle holds back before it passes it on to the
  device; the platform chooses it.
\<close>

record world =
  environ :: "string \<rightharpoonup> string"
  requests_get :: "string \<Rightarrow> (string \<times> string) list \<Rightarrow> response option"
  files :: "string \<rightharpoonup> string"
  open_ok :: "string \<Rightarrow> bool"
  write_ok :: "string \<Rightarrow> string \<Rightarrow> bool"
  buffer_size :: nat

text \<open>
  The handle \<open>f\<close>: the text that has reached the file, and the text written through the
  handle that is still held in its buffer.
\<close>

record file_obj =
  stored :: string
  pending :: string

text \<open>
  Whether the script released the handle: never opened, opened and not closed by the
  script, or closed by \<^verbatim>\<open>f.close()\<close>.
\<close>

datatype handle_state = NotOpened | LeftOpen | Closed

text \<open>
  What a run leaves behind: the calls of \<^verbatim>\<open>requests.get\<close> it made, the files once the
  process is gone, the state of the handle \<open>f\<close>, and the uncaught exception with its step
  (\<open>None\<close>: the script reached its end and the process exits with status 0).
\<close>

record outcome =
  calls :: "request list"
  disk :: "string \<rightharpoonup> string"
  handle :: handle_state
  raised :: "(step \<times> py_error) option"

subsection \<open>The script\<close>

definition OUTPUT_FILE :: string where
  "OUTPUT_FILE = ''organizations.txt''"

definition newline :: string where
  "newline = [CHR 0x0A]"

definition customHeaders :: "string \<Rightarrow> (string \<times> string) list" where
  "customHeaders auth =
     [(''Authorization'', auth), (''Accept'', ''application/vnd.github.v3+json'')]"

text \<open>\<^verbatim>\<open>open(OUTPUT_FILE,"w")\<close>: the file is truncated and the buffer is empty.\<close>

definition opened :: file_obj where
  "opened = \<lparr>stored = [], pending = []\<rparr>"

text \<open>
  Passing the buffer on to the device. With nothing pending the device is not asked. A
  device that refuses raises \<^verbatim>\<open>OSError\<close>; the text stays in the buffer.
\<close>

definition flush :: "(string \<Rightarrow> string \<Rightarrow> bool) \<Rightarrow> file_obj \<Rightarrow> file_obj \<times> py_error option" where
  "flush ok f =
     (if pending f = [] then (f, None)
      else if ok (stored f) (pending f)
      then (\<lparr>stored = stored f @ pending f, pending = []\<rparr>, None)
      else (f, Some OSError))"

text \<open>
  \<^verbatim>\<open>f.write(v)\<close>: the argument must be a \<^verbatim>\<open>str\<close>. The text goes to the buffer, and the
  buffer is passed on once it holds \<open>n\<close> characters or more; so a write raises
  \<^verbatim>\<open>OSError\<close> only when it makes the buffer spill onto a device that refuses.
\<close>

definition f_write ::
  "(string \<Rightarrow> string \<Rightarrow> bool) \<Rightarrow> nat \<Rightarrow> file_obj \<Rightarrow> pyval \<Rightarrow> file_obj \<times> py_error option" where
  "f_write ok n f v =
     (case v of
        PyStr s \<Rightarrow>
          (let f' = f\<lparr>pending := pending f @ s\<rparr>
           in if length (pending f') < n then (f', None) else flush ok f')
      | _ \<Rightarrow> (f, Some TypeError))"

text \<open>
  Lines 34 to 36, over the elements the iterator yields: returns the handle and the
  exception that stopped the loop, if any.
\<close>

fun write_loop ::
  "(string \<Rightarrow> string \<Rightarrow> bool) \<Rightarrow> nat \<Rightarrow> file_obj \<Rightarrow> pyval list
     \<Rightarrow> file_obj \<times> (step \<times> py_error) option" where
  "write_loop ok n f [] = (f, None)"
| "write_loop ok n f (org # rest) =
     (case subscript org ''login'' of
        Inl e \<Rightarrow> (f, Some (FieldAccess, e))
      | Inr v \<Rightarrow>
          (case f_write ok n f v of
             (f1, Some e) \<Rightarrow> (f1, Some (WriteLogin, e))
           | (f1, None) \<Rightarrow>
               (case f_write ok n f1 (PyStr newline) of
                  (f2, Some e) \<Rightarrow> (f2, Some (WriteNewline, e))
                | (f2, None) \<Rightarrow> write_loop ok n f2 rest)))"

text \<open>
  What the file holds once the process is gone, for a handle the script did not close:
  the interpreter flushes it on its way out, and a refused flush loses the pending text.
\<close>

definition left_on_disk :: "(string \<Rightarrow> string \<Rightarrow> bool) \<Rightarrow> file_obj \<Rightarrow> string" where
  "left_on_disk ok f = stored (fst (flush ok f))"

text \<open>A run that ends before the file is opened leaves the files as they were.\<close>

definition abort :: "world \<Rightarrow> request list \<Rightarrow> step \<Rightarrow> py_error \<Rightarrow> outcome" where
  "abort w cs s e = \<lparr>calls = cs, disk = files w, handle = NotOpened, raised = Some (s, e)\<rparr>"

text \<open>
  The script, line by line. \<^verbatim>\<open>f.close()\<close> flushes the buffer and releases the handle; it
  releases the handle also when the flush is refused and the exception goes up.
\<close>

definition run :: "world \<Rightarrow> outcome" where
  "run w =
     (let GHES_TOKEN = environ w ''GHES_TOKEN'';
          GHES_HOST = environ w ''GHES_HOST''
      in case str_add ''token '' GHES_TOKEN of
           Inl e \<Rightarrow> abort w [] BuildHeaders e
         | Inr auth \<Rightarrow>
      (case str_add ''https://'' GHES_HOST of
           Inl e \<Rightarrow> abort w [] FormURL e
         | Inr u \<Rightarrow>
      (let rq = \<lparr>url = u @ ''/api/v3/organizations'', headers = customHeaders auth\<rparr>
       in case requests_get w (url rq) (headers rq) of
           None \<Rightarrow> abort w [rq] Request RequestException
         | Some response \<Rightarrow>
      (case json response of
           None \<Rightarrow> abort w [rq] Decode JSONDecodeError
         | Some listOrgs \<Rightarrow>
      if \<not> open_ok w OUTPUT_FILE then abort w [rq] OpenFile OSError
      else
      (case py_iter listOrgs of
           Inl e \<Rightarrow>
             \<lparr>calls = [rq], disk = (files w)(OUTPUT_FILE \<mapsto> left_on_disk (write_ok w) opened),
              handle = LeftOpen, raised = Some (Iterate, e)\<rparr>
         | Inr orgs \<Rightarrow>
      (case write_loop (write_ok w) (buffer_size w) opened orgs of
           (f, Some x) \<Rightarrow>
             \<lparr>calls = [rq], disk = (files w)(OUTPUT_FILE \<mapsto> left_on_disk (write_ok w) f),
              handle = LeftOpen, raised = Some x\<rparr>
         | (f, None) \<Rightarrow>
             (case flush (write_ok w) f of
                (f', Some e) \<Rightarrow>
                  \<lparr>calls = [rq], disk = (files w)(OUTPUT_FILE \<mapsto> stored f'),
                   handle = Closed, raised = Some (CloseFile, e)\<rparr>
              | (f', None) \<Rightarrow>
                  \<lparr>calls = [rq], disk = (files w)(OUTPUT_FILE \<mapsto> stored f'),
                   handle = Closed, raised = None\<rparr>)))))))"

subsection \<open>Vocabulary of the properties\<close>

text \<open>The address the script asks, for a host \<open>h\<close>.\<close>

abbreviation api_url :: "string \<Rightarrow> string" where
  "api_url h \<equiv> ''https://'' @ h @ ''/api/v3/organizations''"

text \<open>The text of a file holding the given logins, one per line.\<close>

definition lines_of :: "string list \<Rightarrow> string" where
  "lines_of logins = concat (map (\<lambda>s. s @ newline) logins)"

text \<open>All the text written through a handle, on the device or still in the buffer.\<close>

definition written :: "file_obj \<Rightarrow> string" where
  "written f = stored f @ pending f"

text \<open>An element that is an object whose \<^verbatim>\<open>login\<close> field is the string \<open>s\<close>.\<close>

definition has_login :: "pyval \<Rightarrow> string \<Rightarrow> bool" where
  "has_login org s =
     (case org of PyDict kvs \<Rightarrow> map_of kvs ''login'' = Some (PyStr s) | _ \<Rightarrow> False)"



text \<open>
  A test double: the two variables are set to \<open>t\<close> and \<open>h\<close>, the server answers \<open>r\<close> to
  the one expected request and nothing else, the directory holds \<open>fs\<close>, the file system
  accepts everything, and the buffer holds 8192 characters.
\<close>

definition mock_world :: "string \<Rightarrow> string \<Rightarrow> response \<Rightarrow> (string \<rightharpoonup> string) \<Rightarrow> world" where
  "mock_world t h r fs =
     \<lparr>environ = [''GHES_TOKEN'' \<mapsto> t, ''GHES_HOST'' \<mapsto> h],
      requests_get = (\<lambda>u hs.
         if u = api_url h \<and> hs = customHeaders (''token '' @ t) then Some r else None),
      files = fs,
      open_ok = (\<lambda>p. True),
      write_ok = (\<lambda>buf s. True),
      buffer_size = 8192\<rparr>"

definition two_orgs :: pyval where
  "two_orgs = PyList [PyDict [(''login'', PyStr ''org-one'')],
                      PyDict [(''login'', PyStr ''org-two'')]]"

section \<open>Properties\<close>

subsection \<open>The handle\<close>

lemma flush_success:
  "flush ok f = (f', None) \<Longrightarrow> stored f' = written f \<and> pending f' = []"
  by (auto simp: flush_def written_def split: if_splits)

lemma flush_accepting:
  "\<forall>b s. ok b s \<Longrightarrow> snd (flush ok f) = None \<and> stored (fst (flush ok f)) = written f"
  by (simp add: flush_def written_def)

lemma left_on_disk_accepting:
  "\<forall>b s. ok b s \<Longrightarrow> left_on_disk ok f = written f"
  by (simp add: left_on_disk_def flush_accepting)

lemma f_write_success:
  "f_write ok n f v = (f', None) \<Longrightarrow> \<exists>s. v = PyStr s \<and> written f' = written f @ s"
  by (auto simp: f_write_def flush_def written_def Let_def split: pyval.splits if_splits)

lemma f_write_accepting:
  "\<forall>b s. ok b s \<Longrightarrow> \<exists>f'. f_write ok n f (PyStr s) = (f', None) \<and> written f' = written f @ s"
  by (simp add: f_write_def flush_def written_def Let_def)

lemma f_write_error:
  "f_write ok n f v = (f', Some e) \<Longrightarrow> e = TypeError \<or> e = OSError"
  by (auto simp: f_write_def flush_def Let_def split: pyval.splits if_splits)

subsection \<open>The write loop\<close>

lemma has_login_step:
  assumes "has_login org s" and "\<forall>b t. ok b t"
  shows "\<exists>f'. write_loop ok n f (org # rest) = write_loop ok n f' rest
            \<and> written f' = written f @ s @ newline"
proof -
  from assms(1) have sub: "subscript org ''login'' = Inr (PyStr s)"
    by (cases org) (simp_all add: has_login_def subscript_def)
  from f_write_accepting [OF assms(2)] obtain f1 where
    f1: "f_write ok n f (PyStr s) = (f1, None)" "written f1 = written f @ s" by blast
  from f_write_accepting [OF assms(2)] obtain f2 where
    f2: "f_write ok n f1 (PyStr newline) = (f2, None)" "written f2 = written f1 @ newline"
    by blast
  from sub f1 f2 have "write_loop ok n f (org # rest) = write_loop ok n f2 rest
      \<and> written f2 = written f @ s @ newline" by simp
  then show ?thesis by blast
qed

lemma write_loop_prefix:
  "list_all2 has_login pre logins \<Longrightarrow> \<forall>b s. ok b s \<Longrightarrow>
   \<exists>f'. write_loop ok n f (pre @ rest) = write_loop ok n f' rest
       \<and> written f' = written f @ lines_of logins"
proof (induction pre logins arbitrary: f rule: list_all2_induct)
  case Nil
  show ?case by (rule exI [of _ f]) (simp add: lines_of_def)
next
  case (Cons org pre s logins)
  from has_login_step [OF Cons.hyps(1) Cons.prems, of n f "pre @ rest"] obtain f1 where
    f1: "write_loop ok n f ((org # pre) @ rest) = write_loop ok n f1 (pre @ rest)"
      "written f1 = written f @ s @ newline" by auto
  from Cons.IH [OF Cons.prems, of f1] obtain f2 where
    f2: "write_loop ok n f1 (pre @ rest) = write_loop ok n f2 rest"
      "written f2 = written f1 @ lines_of logins" by blast
  from f1 f2 have "write_loop ok n f ((org # pre) @ rest) = write_loop ok n f2 rest
      \<and> written f2 = written f @ lines_of (s # logins)"
    by (simp add: lines_of_def)
  then show ?case by blast
qed

lemma write_loop_all:
  "list_all2 has_login orgs logins \<Longrightarrow> \<forall>b s. ok b s \<Longrightarrow>
   \<exists>f'. write_loop ok n f orgs = (f', None) \<and> written f' = written f @ lines_of logins"
  using write_loop_prefix [of orgs logins ok n f "[]"] by simp

text \<open>Conversely, a loop that ends without an exception has met only objects with a
  string \<^verbatim>\<open>login\<close>, and has written exactly their lines.\<close>

lemma write_loop_success:
  "write_loop ok n f orgs = (f', None) \<Longrightarrow>
   \<exists>logins. list_all2 has_login orgs logins \<and> written f' = written f @ lines_of logins"
proof (induction orgs arbitrary: f)
  case Nil
  then show ?case by (simp add: lines_of_def)
next
  case (Cons org orgs)
  from Cons.prems obtain v f1 f2 where sub: "subscript org ''login'' = Inr v"
    and w1: "f_write ok n f v = (f1, None)"
    and w2: "f_write ok n f1 (PyStr newline) = (f2, None)"
    and rest: "write_loop ok n f2 orgs = (f', None)"
    by (auto split: sum.splits prod.splits option.splits)
  from f_write_success [OF w1] obtain s where s: "v = PyStr s" "written f1 = written f @ s"
    by blast
  from f_write_success [OF w2] have nl: "written f2 = written f1 @ newline" by simp
  from sub s(1) have hl: "has_login org s"
    by (cases org) (auto simp: has_login_def subscript_def split: option.splits)
  from Cons.IH [OF rest] obtain logins where
    "list_all2 has_login orgs logins" "written f' = written f2 @ lines_of logins" by blast
  with hl s(2) nl
  have "list_all2 has_login (org # orgs) (s # logins) \<and> written f' = written f @ lines_of (s # logins)"
    by (simp add: lines_of_def)
  then show ?case by blast
qed

text \<open>The loop raises only at its own three statements.\<close>

lemma write_loop_steps:
  "write_loop ok n f orgs = (f', Some (s, e)) \<Longrightarrow> s \<in> {FieldAccess, WriteLogin, WriteNewline}"
  by (induction orgs arbitrary: f) (auto split: sum.splits prod.splits option.splits)


subsection \<open>The run, once the response is decoded and the file is open\<close>

lemma run_decoded:
  assumes "environ w ''GHES_TOKEN'' = Some t" and "environ w ''GHES_HOST'' = Some h"
    and "requests_get w (api_url h) (customHeaders (''token '' @ t)) = Some r"
    and "json r = Some v" and "open_ok w OUTPUT_FILE"
  shows "run w =
    (case py_iter v of
       Inl e \<Rightarrow>
         \<lparr>calls = [\<lparr>url = api_url h, headers = customHeaders (''token '' @ t)\<rparr>],
          disk = (files w)(OUTPUT_FILE \<mapsto> left_on_disk (write_ok w) opened),
          handle = LeftOpen, raised = Some (Iterate, e)\<rparr>
     | Inr orgs \<Rightarrow>
        (case write_loop (write_ok w) (buffer_size w) opened orgs of
           (f, Some x) \<Rightarrow>
             \<lparr>calls = [\<lparr>url = api_url h, headers = customHeaders (''token '' @ t)\<rparr>],
              disk = (files w)(OUTPUT_FILE \<mapsto> left_on_disk (write_ok w) f),
              handle = LeftOpen, raised = Some x\<rparr>
         | (f, None) \<Rightarrow>
             (case flush (write_ok w) f of
                (f', Some e) \<Rightarrow>
                  \<lparr>calls = [\<lparr>url = api_url h, headers = customHeaders (''token '' @ t)\<rparr>],
                   disk = (files w)(OUTPUT_FILE \<mapsto> stored f'),
                   handle = Closed, raised = Some (CloseFile, e)\<rparr>
              | (f', None) \<Rightarrow>
                  \<lparr>calls = [\<lparr>url = api_url h, headers = customHeaders (''token '' @ t)\<rparr>],
                   disk = (files w)(OUTPUT_FILE \<mapsto> stored f'),
                   handle = Closed, raised = None\<rparr>)))"
  using assms
  by (simp add: run_def str_add_def Let_def split: sum.splits prod.splits option.splits)

text \<open>The same, field by field.\<close>

lemma run_decoded_raised:
  assumes "environ w ''GHES_TOKEN'' = Some t" and "environ w ''GHES_HOST'' = Some h"
    and "requests_get w (api_url h) (customHeaders (''token '' @ t)) = Some r"
    and "json r = Some v" and "open_ok w OUTPUT_FILE"
  shows "raised (run w) =
           (case py_iter v of
              Inl e \<Rightarrow> Some (Iterate, e)
            | Inr orgs \<Rightarrow>
                (case write_loop (write_ok w) (buffer_size w) opened orgs of
                   (f, Some x) \<Rightarrow> Some x
                 | (f, None) \<Rightarrow>
                     (case snd (flush (write_ok w) f) of
                        Some e \<Rightarrow> Some (CloseFile, e)
                      | None \<Rightarrow> None)))"
    and "disk (run w) OUTPUT_FILE =
           (case py_iter v of
              Inl e \<Rightarrow> Some (left_on_disk (write_ok w) opened)
            | Inr orgs \<Rightarrow>
                Some (left_on_disk (write_ok w)
                        (fst (write_loop (write_ok w) (buffer_size w) opened orgs))))"
    and "handle (run w) =
           (case py_iter v of
              Inl e \<Rightarrow> LeftOpen
            | Inr orgs \<Rightarrow>
                if snd (write_loop (write_ok w) (buffer_size w) opened orgs) = None
                then Closed else LeftOpen)"
  using run_decoded [OF assms]
  by (simp_all add: left_on_disk_def split: sum.splits prod.splits option.splits)

text \<open>With a device that takes everything, only the loop decides how the run ends, and
  the file holds all the text written.\<close>

lemma run_accepting:
  assumes "environ w ''GHES_TOKEN'' = Some t" and "environ w ''GHES_HOST'' = Some h"
    and "requests_get w (api_url h) (customHeaders (''token '' @ t)) = Some r"
    and "json r = Some v" and "open_ok w OUTPUT_FILE" and "\<forall>b s. write_ok w b s"
    and "py_iter v = Inr orgs"
  shows "raised (run w) = snd (write_loop (write_ok w) (buffer_size w) opened orgs)"
    and "disk (run w) OUTPUT_FILE
           = Some (written (fst (write_loop (write_ok w) (buffer_size w) opened orgs)))"
  using run_decoded_raised(1,2) [OF assms(1-5)] assms(7)
    flush_accepting [OF assms(6)] left_on_disk_accepting [OF assms(6)]
  by (simp_all split: prod.splits option.splits)


text \<open>A run over an array that ends without an exception has opened the file and met only
  objects with a string \<^verbatim>\<open>login\<close>, and the closed file holds their lines.\<close>

lemma run_success_logins:
  assumes "environ w ''GHES_TOKEN'' = Some t" and "environ w ''GHES_HOST'' = Some h"
    and "requests_get w (api_url h) (customHeaders (''token '' @ t)) = Some r"
    and "json r = Some (PyList orgs)"
    and "raised (run w) = None"
  shows "open_ok w OUTPUT_FILE"
    and "\<exists>logins f f'. list_all2 has_login orgs logins
           \<and> write_loop (write_ok w) (buffer_size w) opened orgs = (f, None)
           \<and> flush (write_ok w) f = (f', None)
           \<and> stored f' = lines_of logins"
proof -
  show op: "open_ok w OUTPUT_FILE"
    using assms by (auto simp: run_def str_add_def abort_def Let_def split: if_splits)
  obtain f f' where loop: "write_loop (write_ok w) (buffer_size w) opened orgs = (f, None)"
    and fl: "flush (write_ok w) f = (f', None)"
    using run_decoded [OF assms(1-4) op] assms(5)
    by (auto simp: py_iter_def split: prod.splits option.splits)
  from write_loop_success [OF loop] obtain logins where
    "list_all2 has_login orgs logins" "written f = written opened @ lines_of logins" by blast
  with flush_success [OF fl] loop fl
  show "\<exists>logins f f'. list_all2 has_login orgs logins
           \<and> write_loop (write_ok w) (buffer_size w) opened orgs = (f, None)
           \<and> flush (write_ok w) f = (f', None)
           \<and> stored f' = lines_of logins"
    by (auto simp: written_def opened_def)
qed

text \<open>A run over an array of objects with string logins, on a file system that takes
  everything.\<close>

lemma run_lines:
  assumes "environ w ''GHES_TOKEN'' = Some t" and "environ w ''GHES_HOST'' = Some h"
    and "requests_get w (api_url h) (customHeaders (''token '' @ t)) = Some r"
    and "json r = Some (PyList orgs)"
    and "list_all2 has_login orgs logins"
    and "open_ok w OUTPUT_FILE" and "\<forall>buf s. write_ok w buf s"
  shows "raised (run w) = None" and "disk (run w) OUTPUT_FILE = Some (lines_of logins)"
    and "handle (run w) = Closed"
proof -
  from write_loop_all [OF assms(5) assms(7), of "buffer_size w" opened] obtain f where
    f: "write_loop (write_ok w) (buffer_size w) opened orgs = (f, None)"
      "written f = written opened @ lines_of logins" by blast
  have it: "py_iter (PyList orgs) = Inr orgs" by (simp add: py_iter_def)
  from run_accepting [OF assms(1-4) assms(6) assms(7) it] f
  show "raised (run w) = None" and "disk (run w) OUTPUT_FILE = Some (lines_of logins)"
    by (simp_all add: written_def opened_def)
  from run_decoded_raised(3) [OF assms(1-4) assms(6)] f
  show "handle (run w) = Closed" by (simp add: py_iter_def)
qed

lemma mock_world_simps:
  "environ (mock_world t h r fs) ''GHES_TOKEN'' = Some t"
  "environ (mock_world t h r fs) ''GHES_HOST'' = Some h"
  "requests_get (mock_world t h r fs) (api_url h) (customHeaders (''token '' @ t)) = Some r"
  "files (mock_world t h r fs) = fs"
  "open_ok (mock_world t h r fs) p"
  "write_ok (mock_world t h r fs) buf s"
  "buffer_size (mock_world t h r fs) = 8192"
  by (simp_all add: mock_world_def)

lemma mock_world_files:
  "(mock_world t h r fs0)\<lparr>files := fs\<rparr> = mock_world t h r fs"
  by (simp add: mock_world_def)

subsection \<open>Claims\<close>



text \<open>
  C2. With both variables set, the script calls \<^verbatim>\<open>requests.get\<close> exactly once, and the
  address is \<^verbatim>\<open>https://\<close> followed by the host and \<^verbatim>\<open>/api/v3/organizations\<close>.
\<close>

theorem single_get_request:
  assumes "environ w ''GHES_TOKEN'' = Some t" and "environ w ''GHES_HOST'' = Some h"
  shows "map url (calls (run w)) = [''https://'' @ h @ ''/api/v3/organizations'']"
  using assms
  by (simp add: run_def str_add_def abort_def Let_def
      split: sum.splits prod.splits option.splits)

theorem single_get_request_witness:
  "environ (mock_world ''abc123'' ''example.com'' \<lparr>status_code = 200, json = Some two_orgs\<rparr>
      Map.empty) ''GHES_HOST'' = Some ''example.com''
   \<and> map url (calls (run (mock_world ''abc123'' ''example.com''
        \<lparr>status_code = 200, json = Some two_orgs\<rparr> Map.empty)))
       = [''https://example.com/api/v3/organizations'']"
  using single_get_request [OF mock_world_simps(1,2),
      of "''abc123''" "''example.com''" "\<lparr>status_code = 200, json = Some two_orgs\<rparr>" Map.empty]
  by (simp add: mock_world_simps)

text \<open>
  C3. With both variables set, the call carries exactly two headers: \<^verbatim>\<open>Authorization\<close>,
  which is \<^verbatim>\<open>token \<close> followed by the token, and \<^verbatim>\<open>Accept\<close>, which is
  \<^verbatim>\<open>application/vnd.github.v3+json\<close>. The script sets no other header.
\<close>

theorem request_headers:
  assumes "environ w ''GHES_TOKEN'' = Some t" and "environ w ''GHES_HOST'' = Some h"
  shows "map headers (calls (run w))
       = [[(''Authorization'', ''token '' @ t), (''Accept'', ''application/vnd.github.v3+json'')]]"
  using assms
  by (simp add: run_def str_add_def abort_def customHeaders_def Let_def
      split: sum.splits prod.splits option.splits)

theorem request_headers_witness:
  "environ (mock_world ''abc123'' ''example.com'' \<lparr>status_code = 200, json = Some two_orgs\<rparr>
      Map.empty) ''GHES_TOKEN'' = Some ''abc123''
   \<and> map headers (calls (run (mock_world ''abc123'' ''example.com''
        \<lparr>status_code = 200, json = Some two_orgs\<rparr> Map.empty)))
       = [[(''Authorization'', ''token abc123''),
           (''Accept'', ''application/vnd.github.v3+json'')]]"
  using request_headers [OF mock_world_simps(1,2),
      of "''abc123''" "''example.com''" "\<lparr>status_code = 200, json = Some two_orgs\<rparr>" Map.empty]
  by (simp add: mock_world_simps)



text \<open>
  C5 (as the script behaves). A variable that is not set ends the run with a \<^verbatim>\<open>TypeError\<close>
  before any request is made and before the file is touched: at the \<^verbatim>\<open>Authorization\<close>
  header when the token is missing, at the URL when the token is set and the host is missing.
  A variable that is set, even to the empty string, passes both statements, and the script
  goes on to call \<^verbatim>\<open>requests.get\<close> once.
\<close>

theorem absent_variable_fails:
  "(environ w ''GHES_TOKEN'' = None \<longrightarrow>
      raised (run w) = Some (BuildHeaders, TypeError)
      \<and> calls (run w) = [] \<and> disk (run w) = files w \<and> handle (run w) = NotOpened)
 \<and> (environ w ''GHES_TOKEN'' \<noteq> None \<and> environ w ''GHES_HOST'' = None \<longrightarrow>
      raised (run w) = Some (FormURL, TypeError)
      \<and> calls (run w) = [] \<and> disk (run w) = files w \<and> handle (run w) = NotOpened)
 \<and> (environ w ''GHES_TOKEN'' \<noteq> None \<and> environ w ''GHES_HOST'' \<noteq> None \<longrightarrow>
      length (calls (run w)) = 1
      \<and> raised (run w) \<noteq> Some (BuildHeaders, TypeError)
      \<and> raised (run w) \<noteq> Some (FormURL, TypeError))"
  by (auto simp: run_def str_add_def abort_def Let_def
      split: sum.splits prod.splits option.splits dest: write_loop_steps)

theorem absent_variable_fails_witness:
  "environ ((mock_world [] ''example.com'' \<lparr>status_code = 200, json = Some two_orgs\<rparr> Map.empty)
      \<lparr>environ := [''GHES_HOST'' \<mapsto> ''example.com'']\<rparr>) ''GHES_TOKEN'' = None
   \<and> raised (run ((mock_world [] ''example.com'' \<lparr>status_code = 200, json = Some two_orgs\<rparr> Map.empty)
      \<lparr>environ := [''GHES_HOST'' \<mapsto> ''example.com'']\<rparr>)) = Some (BuildHeaders, TypeError)
   \<and> environ ((mock_world ''abc123'' [] \<lparr>status_code = 200, json = Some two_orgs\<rparr> Map.empty)
      \<lparr>environ := [''GHES_TOKEN'' \<mapsto> ''abc123'']\<rparr>) ''GHES_HOST'' = None
   \<and> raised (run ((mock_world ''abc123'' [] \<lparr>status_code = 200, json = Some two_orgs\<rparr> Map.empty)
      \<lparr>environ := [''GHES_TOKEN'' \<mapsto> ''abc123'']\<rparr>)) = Some (FormURL, TypeError)
   \<and> environ (mock_world [] [] \<lparr>status_code = 200, json = Some two_orgs\<rparr> Map.empty)
        ''GHES_TOKEN'' = Some []
   \<and> environ (mock_world [] [] \<lparr>status_code = 200, json = Some two_orgs\<rparr> Map.empty)
        ''GHES_HOST'' = Some []
   \<and> length (calls (run (mock_world [] [] \<lparr>status_code = 200, json = Some two_orgs\<rparr> Map.empty)))
        = 1"
  using
    absent_variable_fails [of "(mock_world [] ''example.com''
        \<lparr>status_code = 200, json = Some two_orgs\<rparr> Map.empty)
        \<lparr>environ := [''GHES_HOST'' \<mapsto> ''example.com'']\<rparr>"]
    absent_variable_fails [of "(mock_world ''abc123'' []
        \<lparr>status_code = 200, json = Some two_orgs\<rparr> Map.empty)
        \<lparr>environ := [''GHES_TOKEN'' \<mapsto> ''abc123'']\<rparr>"]
    absent_variable_fails [of "mock_world [] []
        \<lparr>status_code = 200, json = Some two_orgs\<rparr> Map.empty"]
  by (simp add: mock_world_simps)

text \<open>
  The claim as the specification words it fails for an empty token: the header is built
  (\<^verbatim>\<open>token \<close> with nothing after it), the request is made, and when the server answers with
  an error object the file is truncated before the run ends at the first field access.
\<close>

theorem empty_token_not_rejected:
  "environ (mock_world [] ''example.com''
      \<lparr>status_code = 401, json = Some (PyDict [(''message'', PyStr ''Bad credentials'')])\<rparr>
      [OUTPUT_FILE \<mapsto> ''stale'']) ''GHES_TOKEN'' = Some []
   \<and> calls (run (mock_world [] ''example.com''
      \<lparr>status_code = 401, json = Some (PyDict [(''message'', PyStr ''Bad credentials'')])\<rparr>
      [OUTPUT_FILE \<mapsto> ''stale'']))
     = [\<lparr>url = ''https://example.com/api/v3/organizations'',
         headers = [(''Authorization'', ''token ''),
                    (''Accept'', ''application/vnd.github.v3+json'')]\<rparr>]
   \<and> raised (run (mock_world [] ''example.com''
      \<lparr>status_code = 401, json = Some (PyDict [(''message'', PyStr ''Bad credentials'')])\<rparr>
      [OUTPUT_FILE \<mapsto> ''stale''])) = Some (FieldAccess, TypeError)
   \<and> disk (run (mock_world [] ''example.com''
      \<lparr>status_code = 401, json = Some (PyDict [(''message'', PyStr ''Bad credentials'')])\<rparr>
      [OUTPUT_FILE \<mapsto> ''stale''])) OUTPUT_FILE = Some []"
proof -
  have decoded: "json \<lparr>status_code = 401,
        json = Some (PyDict [(''message'', PyStr ''Bad credentials'')])\<rparr>
      = Some (PyDict [(''message'', PyStr ''Bad credentials'')])"
    by simp
  show ?thesis
    using run_decoded [OF mock_world_simps(1-3) decoded mock_world_simps(5),
        of "[]" "''example.com''" "[OUTPUT_FILE \<mapsto> ''stale'']"]
    by (simp add: mock_world_simps py_iter_def subscript_def customHeaders_def
        left_on_disk_def flush_def opened_def)
qed

text \<open>
  C6. The file is opened in truncating mode. After a run that ends without an exception on
  a response array, every element of the array is an object with a string \<^verbatim>\<open>login\<close>, and
  whatever the files held before the run, \<^verbatim>\<open>organizations.txt\<close> holds exactly the lines of
  those logins and nothing of its former text. In particular a second run over the files
  the first one left keeps only the second run's lines.
\<close>

theorem truncate_not_append:
  assumes "environ w ''GHES_TOKEN'' = Some t" and "environ w ''GHES_HOST'' = Some h"
    and "requests_get w (api_url h) (customHeaders (''token '' @ t)) = Some r"
    and "json r = Some (PyList orgs)"
    and "raised (run w) = None"
  shows "\<exists>logins. list_all2 has_login orgs logins \<and>
           (\<forall>fs. raised (run (w\<lparr>files := fs\<rparr>)) = None \<and>
                 disk (run (w\<lparr>files := fs\<rparr>)) OUTPUT_FILE
                   = Some (concat (map (\<lambda>s. s @ newline) logins)))"
proof -
  note op = run_success_logins(1) [OF assms]
  from run_success_logins(2) [OF assms] obtain logins f f' where
    logins: "list_all2 has_login orgs logins"
    and loop: "write_loop (write_ok w) (buffer_size w) opened orgs = (f, None)"
    and fl: "flush (write_ok w) f = (f', None)"
    and st: "stored f' = lines_of logins" by blast
  have "raised (run (w\<lparr>files := fs\<rparr>)) = None \<and>
        disk (run (w\<lparr>files := fs\<rparr>)) OUTPUT_FILE = Some (lines_of logins)" for fs
    using run_decoded [of "w\<lparr>files := fs\<rparr>" t h r "PyList orgs"] assms(1-4) op loop fl st
    by (simp add: py_iter_def)
  with logins show ?thesis unfolding lines_of_def by blast
qed

theorem truncate_not_append_witness:
  "disk (run (mock_world ''abc123'' ''example.com''
        \<lparr>status_code = 200, json = Some two_orgs\<rparr> Map.empty)) OUTPUT_FILE
     = Some (''org-one'' @ [CHR 0x0A] @ ''org-two'' @ [CHR 0x0A])
   \<and> raised (run (mock_world ''abc123'' ''example.com''
        \<lparr>status_code = 200, json = Some (PyList [PyDict [(''login'', PyStr ''other'')]])\<rparr>
        Map.empty)) = None
   \<and> disk (run (mock_world ''abc123'' ''example.com''
        \<lparr>status_code = 200, json = Some (PyList [PyDict [(''login'', PyStr ''other'')]])\<rparr>
        (disk (run (mock_world ''abc123'' ''example.com''
           \<lparr>status_code = 200, json = Some two_orgs\<rparr> Map.empty))))) OUTPUT_FILE
     = Some (''other'' @ [CHR 0x0A])"
proof -
  let ?r1 = "\<lparr>status_code = 200, json = Some two_orgs\<rparr>"
  let ?r2 = "\<lparr>status_code = 200, json = Some (PyList [PyDict [(''login'', PyStr ''other'')]])\<rparr>"
  let ?w1 = "mock_world ''abc123'' ''example.com'' ?r1 Map.empty"
  let ?w2 = "mock_world ''abc123'' ''example.com'' ?r2 Map.empty"
  have d1: "json ?r1 = Some two_orgs" and d2: "json ?r2 = Some (PyList [PyDict [(''login'', PyStr ''other'')]])"
    by simp_all
  have l1: "list_all2 has_login
        [PyDict [(''login'', PyStr ''org-one'')], PyDict [(''login'', PyStr ''org-two'')]]
        [''org-one'', ''org-two'']"
    and l2: "list_all2 has_login [PyDict [(''login'', PyStr ''other'')]] [''other'']"
    by (simp_all add: has_login_def)
  have first: "disk (run ?w1) OUTPUT_FILE
      = Some (''org-one'' @ [CHR 0x0A] @ ''org-two'' @ [CHR 0x0A])"
    using run_lines(2) [OF mock_world_simps(1-3) d1 [unfolded two_orgs_def] l1,
        of "''abc123''" "''example.com''" Map.empty]
    by (simp add: mock_world_simps lines_of_def newline_def two_orgs_def)
  have ok2: "raised (run ?w2) = None"
    using run_lines(1) [OF mock_world_simps(1-3) d2 l2,
        of "''abc123''" "''example.com''" Map.empty]
    by (simp add: mock_world_simps)
  from truncate_not_append [OF mock_world_simps(1-3) d2 ok2]
  obtain logins where l: "list_all2 has_login [PyDict [(''login'', PyStr ''other'')]] logins"
    and every: "\<forall>fs. raised (run (?w2\<lparr>files := fs\<rparr>)) = None \<and>
       disk (run (?w2\<lparr>files := fs\<rparr>)) OUTPUT_FILE = Some (concat (map (\<lambda>s. s @ newline) logins))"
    by blast
  from l have "logins = [''other'']"
    by (auto simp: list_all2_Cons1 has_login_def)
  with every [rule_format, of "disk (run ?w1)"] first ok2 show ?thesis
    by (simp add: mock_world_files newline_def)
qed

text \<open>
  C7. When the decoded response is the empty array (and the file can be opened), the run
  ends without an exception, the handle is closed, and \<^verbatim>\<open>organizations.txt\<close> exists and is
  empty.
\<close>

theorem empty_array_empty_file:
  assumes "environ w ''GHES_TOKEN'' = Some t" and "environ w ''GHES_HOST'' = Some h"
    and "requests_get w (api_url h) (customHeaders (''token '' @ t)) = Some r"
    and "json r = Some (PyList [])"
    and "open_ok w OUTPUT_FILE"
  shows "raised (run w) = None \<and> disk (run w) OUTPUT_FILE = Some [] \<and> handle (run w) = Closed"
  using run_decoded [OF assms] by (simp add: py_iter_def flush_def opened_def)

theorem empty_array_empty_file_witness:
  "json \<lparr>status_code = 200, json = Some (PyList [])\<rparr> = Some (PyList [])
   \<and> raised (run (mock_world ''abc123'' ''example.com''
        \<lparr>status_code = 200, json = Some (PyList [])\<rparr> [OUTPUT_FILE \<mapsto> ''stale''])) = None
   \<and> disk (run (mock_world ''abc123'' ''example.com''
        \<lparr>status_code = 200, json = Some (PyList [])\<rparr> [OUTPUT_FILE \<mapsto> ''stale''])) OUTPUT_FILE
       = Some []"
proof -
  have decoded: "json \<lparr>status_code = 200, json = Some (PyList [])\<rparr> = Some (PyList [])"
    by simp
  show ?thesis
    using empty_array_empty_file [OF mock_world_simps(1-3) decoded,
        of "''abc123''" "''example.com''" "[OUTPUT_FILE \<mapsto> ''stale'']"]
    by (simp add: mock_world_simps)
qed




text \<open>
  C9. The script closes the handle only at its end, after the last write: a run without an
  exception has closed it, and a run stopped by an exception inside the loop (at the
  \<^verbatim>\<open>for\<close> statement, the field access or one of the two writes) has opened the file and
  never reached \<^verbatim>\<open>f.close()\<close>, so the script has not released the handle. When
  \<^verbatim>\<open>f.close()\<close> itself raises, because the device refuses the buffered text, the handle is
  released all the same.
\<close>

theorem close_only_on_success:
  "(raised (run w) = None \<longrightarrow> handle (run w) = Closed)
 \<and> (\<forall>s e. raised (run w) = Some (s, e) \<and> s \<in> {Iterate, FieldAccess, WriteLogin, WriteNewline}
        \<longrightarrow> handle (run w) = LeftOpen)
 \<and> (\<forall>e. raised (run w) = Some (CloseFile, e) \<longrightarrow> handle (run w) = Closed)"
  by (auto simp: run_def str_add_def abort_def Let_def
      split: sum.splits prod.splits option.splits dest: write_loop_steps)

theorem close_only_on_success_witness:
  "raised (run (mock_world ''abc123'' ''example.com''
        \<lparr>status_code = 200, json = Some (PyList [PyDict [(''id'', PyInt 2)]])\<rparr> Map.empty))
     = Some (FieldAccess, KeyError)
   \<and> handle (run (mock_world ''abc123'' ''example.com''
        \<lparr>status_code = 200, json = Some (PyList [PyDict [(''id'', PyInt 2)]])\<rparr> Map.empty))
     = LeftOpen
   \<and> raised (run (mock_world ''abc123'' ''example.com''
        \<lparr>status_code = 200, json = Some (PyList [])\<rparr> Map.empty)) = None
   \<and> handle (run (mock_world ''abc123'' ''example.com''
        \<lparr>status_code = 200, json = Some (PyList [])\<rparr> Map.empty)) = Closed
   \<and> raised (run ((mock_world ''abc123'' ''example.com''
        \<lparr>status_code = 200, json = Some (PyList [PyDict [(''login'', PyStr ''org-one'')]])\<rparr>
        Map.empty)\<lparr>write_ok := \<lambda>b s. False\<rparr>)) = Some (CloseFile, OSError)
   \<and> handle (run ((mock_world ''abc123'' ''example.com''
        \<lparr>status_code = 200, json = Some (PyList [PyDict [(''login'', PyStr ''org-one'')]])\<rparr>
        Map.empty)\<lparr>write_ok := \<lambda>b s. False\<rparr>)) = Closed
   \<and> raised (run ((mock_world ''abc123'' ''example.com''
        \<lparr>status_code = 200, json = Some (PyList [PyDict [(''login'', PyStr ''org-one'')]])\<rparr>
        Map.empty)\<lparr>write_ok := \<lambda>b s. False, buffer_size := 4\<rparr>)) = Some (WriteLogin, OSError)
   \<and> handle (run ((mock_world ''abc123'' ''example.com''
        \<lparr>status_code = 200, json = Some (PyList [PyDict [(''login'', PyStr ''org-one'')]])\<rparr>
        Map.empty)\<lparr>write_ok := \<lambda>b s. False, buffer_size := 4\<rparr>)) = LeftOpen"
proof -
  let ?spill = "(mock_world ''abc123'' ''example.com''
        \<lparr>status_code = 200, json = Some (PyList [PyDict [(''login'', PyStr ''org-one'')]])\<rparr>
        Map.empty)\<lparr>write_ok := \<lambda>b s. False, buffer_size := 4\<rparr>"
  let ?full = "(mock_world ''abc123'' ''example.com''
        \<lparr>status_code = 200, json = Some (PyList [PyDict [(''login'', PyStr ''org-one'')]])\<rparr>
        Map.empty)\<lparr>write_ok := \<lambda>b s. False\<rparr>"
  have d1: "json \<lparr>status_code = 200, json = Some (PyList [PyDict [(''id'', PyInt 2)]])\<rparr>
      = Some (PyList [PyDict [(''id'', PyInt 2)]])"
    and d2: "json \<lparr>status_code = 200, json = Some (PyList [])\<rparr> = Some (PyList [])"
    and d3: "json \<lparr>status_code = 200,
         json = Some (PyList [PyDict [(''login'', PyStr ''org-one'')]])\<rparr>
      = Some (PyList [PyDict [(''login'', PyStr ''org-one'')]])"
    by simp_all
  have r1: "raised (run (mock_world ''abc123'' ''example.com''
        \<lparr>status_code = 200, json = Some (PyList [PyDict [(''id'', PyInt 2)]])\<rparr> Map.empty))
     = Some (FieldAccess, KeyError)"
    using run_decoded_raised(1) [OF mock_world_simps(1-3) d1 mock_world_simps(5),
        of "''abc123''" "''example.com''" Map.empty]
    by (simp add: py_iter_def subscript_def)
  have r2: "raised (run (mock_world ''abc123'' ''example.com''
        \<lparr>status_code = 200, json = Some (PyList [])\<rparr> Map.empty)) = None"
    using run_decoded_raised(1) [OF mock_world_simps(1-3) d2 mock_world_simps(5),
        of "''abc123''" "''example.com''" Map.empty]
    by (simp add: py_iter_def flush_def opened_def)
  have env: "environ ?full ''GHES_TOKEN'' = Some ''abc123''"
    "environ ?full ''GHES_HOST'' = Some ''example.com''"
    "requests_get ?full (api_url ''example.com'') (customHeaders (''token '' @ ''abc123''))
      = Some \<lparr>status_code = 200,
           json = Some (PyList [PyDict [(''login'', PyStr ''org-one'')]])\<rparr>"
    "open_ok ?full OUTPUT_FILE"
    by (simp_all add: mock_world_def)
  have r3: "raised (run ?full) = Some (CloseFile, OSError)"
    using run_decoded_raised(1) [OF env(1-3) d3 env(4)]
    by (simp add: mock_world_def py_iter_def subscript_def f_write_def flush_def opened_def
        newline_def Let_def)
  have env': "environ ?spill ''GHES_TOKEN'' = Some ''abc123''"
    "environ ?spill ''GHES_HOST'' = Some ''example.com''"
    "requests_get ?spill (api_url ''example.com'') (customHeaders (''token '' @ ''abc123''))
      = Some \<lparr>status_code = 200,
           json = Some (PyList [PyDict [(''login'', PyStr ''org-one'')]])\<rparr>"
    "open_ok ?spill OUTPUT_FILE"
    by (simp_all add: mock_world_def)
  have r4: "raised (run ?spill) = Some (WriteLogin, OSError)"
    using run_decoded_raised(1) [OF env'(1-3) d3 env'(4)]
    by (simp add: mock_world_def py_iter_def subscript_def f_write_def flush_def opened_def
        Let_def)
  show ?thesis
    using
      close_only_on_success [of ?spill]
      close_only_on_success [of "mock_world ''abc123'' ''example.com''
        \<lparr>status_code = 200, json = Some (PyList [PyDict [(''id'', PyInt 2)]])\<rparr> Map.empty"]
      close_only_on_success [of "mock_world ''abc123'' ''example.com''
        \<lparr>status_code = 200, json = Some (PyList [])\<rparr> Map.empty"]
      close_only_on_success [of ?full]
      r1 r2 r3 r4
    by simp
qed

text \<open>
  C10. The file is opened only after the request and the decoding have both succeeded: a
  run stopped at the request or at the decoding has not opened the file and leaves every
  file, \<^verbatim>\<open>organizations.txt\<close> included, as it was; and a run that has opened the file has
  got a response and decoded it.
\<close>

theorem failure_before_open_keeps_file:
  "(\<forall>s e. raised (run w) = Some (s, e) \<and> s \<in> {Request, Decode}
      \<longrightarrow> disk (run w) = files w \<and> handle (run w) = NotOpened)
 \<and> (handle (run w) \<noteq> NotOpened \<longrightarrow>
      (\<exists>t h r v. environ w ''GHES_TOKEN'' = Some t \<and> environ w ''GHES_HOST'' = Some h
         \<and> requests_get w (api_url h) (customHeaders (''token '' @ t)) = Some r
         \<and> json r = Some v))"
  by (auto simp: run_def str_add_def abort_def Let_def
      split: sum.splits prod.splits option.splits dest: write_loop_steps)

theorem failure_before_open_keeps_file_witness:
  "raised (run (mock_world ''abc123'' ''example.com''
        \<lparr>status_code = 502, json = None\<rparr> [OUTPUT_FILE \<mapsto> ''stale'']))
     = Some (Decode, JSONDecodeError)
   \<and> disk (run (mock_world ''abc123'' ''example.com''
        \<lparr>status_code = 502, json = None\<rparr> [OUTPUT_FILE \<mapsto> ''stale'']))
     = [OUTPUT_FILE \<mapsto> ''stale'']
   \<and> raised (run ((mock_world ''abc123'' ''example.com''
        \<lparr>status_code = 200, json = Some two_orgs\<rparr> [OUTPUT_FILE \<mapsto> ''stale''])
        \<lparr>requests_get := \<lambda>u hs. None\<rparr>))
     = Some (Request, RequestException)
   \<and> disk (run ((mock_world ''abc123'' ''example.com''
        \<lparr>status_code = 200, json = Some two_orgs\<rparr> [OUTPUT_FILE \<mapsto> ''stale''])
        \<lparr>requests_get := \<lambda>u hs. None\<rparr>))
     = [OUTPUT_FILE \<mapsto> ''stale'']"
proof -
  have r1: "raised (run (mock_world ''abc123'' ''example.com''
        \<lparr>status_code = 502, json = None\<rparr> [OUTPUT_FILE \<mapsto> ''stale'']))
     = Some (Decode, JSONDecodeError)"
    by (simp add: run_def mock_world_def str_add_def abort_def)
  have r2: "raised (run ((mock_world ''abc123'' ''example.com''
        \<lparr>status_code = 200, json = Some two_orgs\<rparr> [OUTPUT_FILE \<mapsto> ''stale''])
        \<lparr>requests_get := \<lambda>u hs. None\<rparr>))
     = Some (Request, RequestException)"
    by (simp add: run_def mock_world_def str_add_def abort_def)
  show ?thesis
    using
      failure_before_open_keeps_file [of "mock_world ''abc123'' ''example.com''
        \<lparr>status_code = 502, json = None\<rparr> [OUTPUT_FILE \<mapsto> ''stale'']"]
      failure_before_open_keeps_file [of "(mock_world ''abc123'' ''example.com''
        \<lparr>status_code = 200, json = Some two_orgs\<rparr> [OUTPUT_FILE \<mapsto> ''stale''])
        \<lparr>requests_get := \<lambda>u hs. None\<rparr>"]
      r1 r2
    by (simp add: mock_world_simps)
qed

end
